theory Spec2Isabelle
  imports Main "HOL-Library.Sublist"
begin

section \<open>Python strings\<close>

text \<open>
  A Python \<open>str\<close> is represented by the byte sequence of its UTF-8 encoding, as a
  \<^typ>\<open>string\<close>. Every operation the program applies to a string (splitting at
  line feeds, testing an ASCII prefix, dropping an ASCII prefix, substring search,
  concatenation, stripping white space) gives the same result on the UTF-8 bytes as on
  the code points. The literals of the source that are not ASCII are written out as
  their UTF-8 bytes.

  \<open>str.lower\<close> is the Unicode lower-casing of the Python runtime. It is not part of
  the repository, and it is a parameter \<open>lower\<close> of every definition that calls it, so
  that what is proved holds for the runtime's function whatever it does.
  \<open>ascii_lower\<close> is the instance used to evaluate the definitions on ASCII inputs.
\<close>

definition ascii_lower :: "string \<Rightarrow> string" where
  "ascii_lower s =
     map (\<lambda>c. if (65::nat) \<le> of_char c \<and> of_char c \<le> (90::nat)
              then char_of (of_char c + (32::nat)) else c) s"

text \<open>\<open>s.startswith(p)\<close> and \<open>s.endswith(p)\<close>.\<close>

definition startswith :: "string \<Rightarrow> string \<Rightarrow> bool" where
  "startswith p s = (take (length p) s = p)"

definition endswith :: "string \<Rightarrow> string \<Rightarrow> bool" where
  "endswith p s = (length p \<le> length s \<and> drop (length s - length p) s = p)"

text \<open>\<open>sub in s\<close> on strings: \<open>sub\<close> occurs in \<open>s\<close> at some position.\<close>

fun py_in :: "string \<Rightarrow> string \<Rightarrow> bool" where
  "py_in sub [] = (sub = [])"
| "py_in sub (c # cs) = (startswith sub (c # cs) \<or> py_in sub cs)"

text \<open>
  The characters that \<open>str.strip()\<close> removes are those for which \<open>str.isspace\<close>
  holds: U+0009..U+000D, U+001C..U+0020, U+0085, U+00A0, U+1680, U+2000..U+200A,
  U+2028, U+2029, U+202F, U+205F and U+3000, here in UTF-8.
\<close>

definition whitespace :: "string list" where
  "whitespace =
     [[CHR 0x09], [CHR 0x0A], [CHR 0x0B], [CHR 0x0C], [CHR 0x0D],
      [CHR 0x1C], [CHR 0x1D], [CHR 0x1E], [CHR 0x1F], [CHR 0x20],
      [CHR 0xC2, CHR 0x85], [CHR 0xC2, CHR 0xA0], [CHR 0xE1, CHR 0x9A, CHR 0x80],
      [CHR 0xE2, CHR 0x80, CHR 0x80], [CHR 0xE2, CHR 0x80, CHR 0x81],
      [CHR 0xE2, CHR 0x80, CHR 0x82], [CHR 0xE2, CHR 0x80, CHR 0x83],
      [CHR 0xE2, CHR 0x80, CHR 0x84], [CHR 0xE2, CHR 0x80, CHR 0x85],
      [CHR 0xE2, CHR 0x80, CHR 0x86], [CHR 0xE2, CHR 0x80, CHR 0x87],
      [CHR 0xE2, CHR 0x80, CHR 0x88], [CHR 0xE2, CHR 0x80, CHR 0x89],
      [CHR 0xE2, CHR 0x80, CHR 0x8A], [CHR 0xE2, CHR 0x80, CHR 0xA8],
      [CHR 0xE2, CHR 0x80, CHR 0xA9], [CHR 0xE2, CHR 0x80, CHR 0xAF],
      [CHR 0xE2, CHR 0x81, CHR 0x9F], [CHR 0xE3, CHR 0x80, CHR 0x80]]"

lemma whitespace_nonempty: "w \<in> set whitespace \<Longrightarrow> w \<noteq> []"
  by (auto simp: whitespace_def)

lemma find_startswith_shorter:
  assumes "find (\<lambda>w. startswith w s) whitespace = Some w"
  shows "length (drop (length w) s) < length s"
proof -
  from assms have w: "w \<in> set whitespace" and p: "startswith w s"
    by (auto simp: find_Some_iff)
  from w have "w \<noteq> []" by (rule whitespace_nonempty)
  with p have "s \<noteq> []" by (auto simp: startswith_def)
  with \<open>w \<noteq> []\<close> show ?thesis by simp
qed

lemma find_endswith_shorter:
  assumes "find (\<lambda>w. endswith w s) whitespace = Some w"
  shows "length (take (length s - length w) s) < length s"
proof -
  from assms have w: "w \<in> set whitespace" and p: "endswith w s"
    by (auto simp: find_Some_iff)
  from w have "w \<noteq> []" by (rule whitespace_nonempty)
  with p have "s \<noteq> []" by (auto simp: endswith_def)
  with \<open>w \<noteq> []\<close> show ?thesis by simp
qed

function lstrip :: "string \<Rightarrow> string" where
  "lstrip s =
     (case find (\<lambda>w. startswith w s) whitespace of
        None \<Rightarrow> s
      | Some w \<Rightarrow> lstrip (drop (length w) s))"
  by pat_completeness auto
termination
  by (relation "measure length") (auto dest: find_startswith_shorter)

function rstrip :: "string \<Rightarrow> string" where
  "rstrip s =
     (case find (\<lambda>w. endswith w s) whitespace of
        None \<Rightarrow> s
      | Some w \<Rightarrow> rstrip (take (length s - length w) s))"
  by pat_completeness auto
termination
  by (relation "measure length") (auto dest: find_endswith_shorter)

text \<open>\<open>s.strip()\<close>: white space is removed at both ends.\<close>

definition strip :: "string \<Rightarrow> string" where
  "strip s = rstrip (lstrip s)"

text \<open>
  \<open>s.split('\n')\<close>: the pieces between line feeds; the empty string gives one empty
  piece, and a trailing line feed gives a last empty piece.
\<close>

fun split_nl :: "string \<Rightarrow> string list" where
  "split_nl [] = [[]]"
| "split_nl (c # cs) =
     (if c = CHR 0x0A then [] # split_nl cs
      else (case split_nl cs of
              [] \<Rightarrow> [[c]]
            | l # ls \<Rightarrow> (c # l) # ls))"

text \<open>\<open>'\n'.join(xs)\<close>.\<close>

fun join_nl :: "string list \<Rightarrow> string" where
  "join_nl [] = []"
| "join_nl [x] = x"
| "join_nl (x # y # ys) = x @ [CHR 0x0A] @ join_nl (y # ys)"

text \<open>
  \<open>s.replace("origin/", "")\<close>: every occurrence of \<open>origin/\<close>, found from the left
  and not overlapping, is removed.
\<close>

fun replace_origin :: "string \<Rightarrow> string" where
  "replace_origin [] = []"
| "replace_origin (c # cs) =
     (if startswith ''origin/'' (c # cs) then replace_origin (drop 6 cs)
      else c # replace_origin cs)"

section \<open>The console\<close>

text \<open>
  The program prints through \<open>rich\<close>: \<open>console.print\<close> takes its argument as console
  markup, so a bracketed word in it is a tag, not text, and a closing tag that matches
  no open tag makes \<open>rich\<close> raise \<open>MarkupError\<close>. \<open>rich\<close> is not part of the repository.
  It is the parameter \<open>console\<close> of every definition that prints through it: from the
  string handed to \<open>console.print\<close> to the text that \<open>rich\<close> shows for it, or to
  \<open>None\<close> when \<open>rich\<close> raises \<open>MarkupError\<close>.

  The functions of \<open>git_utils\<close> are modelled with every line they print, and so is
  the publish step of \<open>run\<close>. The progress lines that \<open>run\<close> prints between its other
  steps are not modelled.
\<close>

text \<open>
  The exceptions that leave the modelled functions: of the generative backend, of
  \<open>click\<close> at the end of the input, of the operating system at a write, of
  \<open>relative_to\<close>, and of \<open>rich\<close>.
\<close>

datatype workflow_error = GenerationError | Abort | OSError | ValueError | MarkupError

text \<open>
  In the examples where nothing is printed, the console is this one, which is never
  asked.
\<close>

definition no_console :: "string \<Rightarrow> string option" where
  "no_console markup = None"

section \<open>git\_utils: commands and branch search\<close>

text \<open>
  What \<open>subprocess.run(..., capture_output=True, text=True, check=True)\<close> gives: the
  completed process with its standard output, or \<open>CalledProcessError\<close> with the
  standard error of a command that exited with a non-zero status. The outcome of a
  command is decided outside the program, so the model takes it as an input.
\<close>

datatype cmd_result = Completed string | CalledProcessError string

text \<open>
  The line that the handler of \<open>find_branch_for_issue\<close> prints: the standard error of
  the command, after six characters that say ``finding the branch failed'' and a
  colon, between the tags \<open>[bold red]\<close> and \<open>[/bold red]\<close>.
\<close>

definition find_failed :: "string \<Rightarrow> string" where
  "find_failed stderr =
     ''[bold red]''
       @ [CHR 0xE6, CHR 0x9F, CHR 0xA5, CHR 0xE6, CHR 0x89, CHR 0xBE, CHR 0xE5,
          CHR 0x88, CHR 0x86, CHR 0xE6, CHR 0x94, CHR 0xAF, CHR 0xE5, CHR 0xA4,
          CHR 0xB1, CHR 0xE8, CHR 0xB4, CHR 0xA5, CHR 0x3A, CHR 0x20]
       @ stderr @ ''[/bold red]''"

text \<open>
  \<open>find_branch_for_issue\<close>; the argument \<open>listing\<close> is the outcome of
  \<open>git branch -r\<close> in the working copy (\<open>os.chdir\<close> into the working copy, which
  \<open>run\<close> has just cloned, is taken to succeed). After \<open>CalledProcessError\<close> the
  handler prints the line above and then returns the empty list; the exception of
  \<open>rich\<close> is raised inside the handler and is not caught.
\<close>

definition find_branch_for_issue ::
  "(string \<Rightarrow> string option) \<Rightarrow> (string \<Rightarrow> string) \<Rightarrow> cmd_result \<Rightarrow> string
     \<Rightarrow> workflow_error + string list" where
  "find_branch_for_issue console lower listing issue_key =
     (case listing of
        Completed stdout \<Rightarrow>
          (let branches = split_nl (strip stdout);
               matching_branches =
                 [strip branch. branch \<leftarrow> branches, py_in (lower issue_key) (lower branch)]
           in Inr matching_branches)
      | CalledProcessError stderr \<Rightarrow>
          (case console (find_failed stderr) of
             None \<Rightarrow> Inl MarkupError
           | Some shown \<Rightarrow> Inr []))"

text \<open>
  The commands that the program runs after the listing are answered by \<open>run_cmd\<close>,
  from the argument vector to the outcome.

  \<open>checkout_branch\<close>: a remote-tracking name gets a local branch of the name without
  \<open>origin/\<close>; the result is whether the command succeeded. Both handlers print the
  standard error after ``checking out the branch failed''.
\<close>

definition checkout_failed :: "string \<Rightarrow> string" where
  "checkout_failed stderr =
     ''[bold red]''
       @ [CHR 0xE6, CHR 0xA3, CHR 0x80, CHR 0xE5, CHR 0x87, CHR 0xBA, CHR 0xE5,
          CHR 0x88, CHR 0x86, CHR 0xE6, CHR 0x94, CHR 0xAF, CHR 0xE5, CHR 0xA4,
          CHR 0xB1, CHR 0xE8, CHR 0xB4, CHR 0xA5, CHR 0x3A, CHR 0x20]
       @ stderr @ ''[/bold red]''"

definition checkout_branch ::
  "(string \<Rightarrow> string option) \<Rightarrow> (string list \<Rightarrow> cmd_result) \<Rightarrow> string
     \<Rightarrow> workflow_error + bool" where
  "checkout_branch console run_cmd branch_name =
     (if startswith ''origin/'' branch_name then
        (let local_branch = replace_origin branch_name in
         case run_cmd [''git'', ''checkout'', ''-b'', local_branch, branch_name] of
           Completed out \<Rightarrow> Inr True
         | CalledProcessError stderr \<Rightarrow>
             (case console (checkout_failed stderr) of
                None \<Rightarrow> Inl MarkupError
              | Some shown \<Rightarrow> Inr False))
      else
        (case run_cmd [''git'', ''checkout'', branch_name] of
           Completed out \<Rightarrow> Inr True
         | CalledProcessError stderr \<Rightarrow>
             (case console (checkout_failed stderr) of
                None \<Rightarrow> Inl MarkupError
              | Some shown \<Rightarrow> Inr False)))"

text \<open>
  \<open>create_branch_for_issue\<close>: check out the base branch, pull, and create the branch
  named by the issue key. \<open>Some new_branch\<close> is the source's \<open>(True, new_branch)\<close>
  and \<open>None\<close> its \<open>(False, None)\<close>. It prints ``updating the base branch'' with
  the base branch before the first command, ``creating the new branch'' with the
  new name before the last, and in the handler the standard error after ``creating
  the branch failed''.
\<close>

definition updating_base :: "string \<Rightarrow> string" where
  "updating_base base_branch =
     ''[bold]''
       @ [CHR 0xE6, CHR 0x9B, CHR 0xB4, CHR 0xE6, CHR 0x96, CHR 0xB0, CHR 0xE5,
          CHR 0x9F, CHR 0xBA, CHR 0xE7, CHR 0xA1, CHR 0x80, CHR 0xE5, CHR 0x88,
          CHR 0x86, CHR 0xE6, CHR 0x94, CHR 0xAF, CHR 0x20]
       @ base_branch @ ''...[/bold]''"

definition creating_branch :: "string \<Rightarrow> string" where
  "creating_branch new_branch =
     ''[bold]''
       @ [CHR 0xE5, CHR 0x88, CHR 0x9B, CHR 0xE5, CHR 0xBB, CHR 0xBA, CHR 0xE6,
          CHR 0x96, CHR 0xB0, CHR 0xE5, CHR 0x88, CHR 0x86, CHR 0xE6, CHR 0x94,
          CHR 0xAF, CHR 0x3A, CHR 0x20]
       @ new_branch @ ''[/bold]''"

definition create_failed :: "string \<Rightarrow> string" where
  "create_failed stderr =
     ''[bold red]''
       @ [CHR 0xE5, CHR 0x88, CHR 0x9B, CHR 0xE5, CHR 0xBB, CHR 0xBA, CHR 0xE5,
          CHR 0x88, CHR 0x86, CHR 0xE6, CHR 0x94, CHR 0xAF, CHR 0xE5, CHR 0xA4,
          CHR 0xB1, CHR 0xE8, CHR 0xB4, CHR 0xA5, CHR 0x3A, CHR 0x20]
       @ stderr @ ''[/bold red]''"

definition create_branch_for_issue ::
  "(string \<Rightarrow> string option) \<Rightarrow> (string list \<Rightarrow> cmd_result) \<Rightarrow> string \<Rightarrow> string
     \<Rightarrow> workflow_error + string option" where
  "create_branch_for_issue console run_cmd issue_key base_branch =
     (let handler = (\<lambda>stderr.
            case console (create_failed stderr) of
              None \<Rightarrow> Inl MarkupError
            | Some shown \<Rightarrow> Inr None)
      in
      case console (updating_base base_branch) of
        None \<Rightarrow> Inl MarkupError
      | Some shown1 \<Rightarrow>
          (case run_cmd [''git'', ''checkout'', base_branch] of
             CalledProcessError stderr \<Rightarrow> handler stderr
           | Completed out1 \<Rightarrow>
               (case run_cmd [''git'', ''pull''] of
                  CalledProcessError stderr \<Rightarrow> handler stderr
                | Completed out2 \<Rightarrow>
                    (let new_branch = issue_key in
                     case console (creating_branch new_branch) of
                       None \<Rightarrow> Inl MarkupError
                     | Some shown2 \<Rightarrow>
                         (case run_cmd [''git'', ''checkout'', ''-b'', new_branch] of
                            CalledProcessError stderr \<Rightarrow> handler stderr
                          | Completed out3 \<Rightarrow> Inr (Some new_branch))))))"

section \<open>cli: branch resolution in \<open>run\<close>\<close>

text \<open>
  Step 4 of \<open>run\<close> searches with the issue key and, when nothing is found and a parent
  issue was fetched, once more with the parent's key. \<open>listing1\<close> and \<open>listing2\<close> are
  the outcomes of the two \<open>git branch -r\<close> calls; \<open>parent_key\<close> is \<open>None\<close> when the
  issue has no parent or the parent could not be fetched. An exception of a search
  ends \<open>run\<close>.
\<close>

definition run_find_branches ::
  "(string \<Rightarrow> string option) \<Rightarrow> (string \<Rightarrow> string) \<Rightarrow> cmd_result \<Rightarrow> cmd_result \<Rightarrow> string
     \<Rightarrow> string option \<Rightarrow> workflow_error + string list" where
  "run_find_branches console lower listing1 listing2 issue_key parent_key =
     (case find_branch_for_issue console lower listing1 issue_key of
        Inl e \<Rightarrow> Inl e
      | Inr branches \<Rightarrow>
          (if branches = [] then
             (case parent_key of
                Some pk \<Rightarrow> find_branch_for_issue console lower listing2 pk
              | None \<Rightarrow> Inr branches)
           else Inr branches))"

text \<open>
  The three branches of the conditional that follows the search, named as the
  specification names them: one candidate is offered for checkout, several are offered
  for a choice by number, none leads to the offer of a new branch from \<open>release\<close>.
\<close>

datatype branch_decision = Checkout string | ChooseAmong "string list" | CreateNew string

definition run_branch_decision :: "string list \<Rightarrow> branch_decision" where
  "run_branch_decision branches =
     (if branches \<noteq> [] then
        (if length branches = 1 then Checkout (branches ! 0)
         else ChooseAmong branches)
      else CreateNew ''release'')"

definition resolve ::
  "(string \<Rightarrow> string option) \<Rightarrow> (string \<Rightarrow> string) \<Rightarrow> cmd_result \<Rightarrow> cmd_result \<Rightarrow> string
     \<Rightarrow> string option \<Rightarrow> workflow_error + branch_decision" where
  "resolve console lower listing1 listing2 issue_key parent_key =
     (case run_find_branches console lower listing1 listing2 issue_key parent_key of
        Inl e \<Rightarrow> Inl e
      | Inr branches \<Rightarrow> Inr (run_branch_decision branches))"

text \<open>
  What \<open>run\<close> does with the decision. \<open>confirm\<close> is the answer to the one yes/no
  question asked (check out this branch, or create a new one), \<open>branch_idx\<close> the number
  typed at the prompt of a choice. The result is \<open>branch_used\<close>: \<open>Inr None\<close> when the
  user declined, and \<open>Inl\<close> where the source prints an error and leaves
  \<open>branch_used\<close> unset, or where an exception of \<open>checkout_branch\<close> or
  \<open>create_branch_for_issue\<close> ends \<open>run\<close> (\<open>Uncaught\<close>).
\<close>

datatype branch_error =
  InvalidBranchNumber | CheckoutFailed string | CreateBranchFailed | Uncaught workflow_error

definition run_apply_decision ::
  "(string \<Rightarrow> string option) \<Rightarrow> (string list \<Rightarrow> cmd_result) \<Rightarrow> string \<Rightarrow> bool \<Rightarrow> int
     \<Rightarrow> branch_decision \<Rightarrow> branch_error + string option" where
  "run_apply_decision console run_cmd issue_key confirm branch_idx decision =
     (case decision of
        Checkout branch \<Rightarrow>
          (if confirm then
             (case checkout_branch console run_cmd branch of
                Inl e \<Rightarrow> Inl (Uncaught e)
              | Inr ok \<Rightarrow>
                  (if ok then Inr (Some (replace_origin branch))
                   else Inl (CheckoutFailed branch)))
           else Inr None)
      | ChooseAmong branches \<Rightarrow>
          (if 1 \<le> branch_idx \<and> branch_idx \<le> int (length branches) then
             (let branch = branches ! nat (branch_idx - 1) in
              case checkout_branch console run_cmd branch of
                Inl e \<Rightarrow> Inl (Uncaught e)
              | Inr ok \<Rightarrow>
                  (if ok then Inr (Some (replace_origin branch))
                   else Inl (CheckoutFailed branch)))
           else Inl InvalidBranchNumber)
      | CreateNew base_branch \<Rightarrow>
          (if confirm then
             (case create_branch_for_issue console run_cmd issue_key base_branch of
                Inl e \<Rightarrow> Inl (Uncaught e)
              | Inr (Some new_branch) \<Rightarrow> Inr (Some new_branch)
              | Inr None \<Rightarrow> Inl CreateBranchFailed)
           else Inr None))"

text \<open>
  An example listing: the issue \<open>DTS-1\<close> has one branch, \<open>DTS-2\<close> has two, \<open>DTS-3\<close>
  has none and its parent \<open>DTS-2\<close> is searched instead.
\<close>

definition example_listing :: cmd_result where
  "example_listing =
     Completed ''  origin/HEAD -> origin/main\<newline>  origin/DTS-1-fix\<newline>  origin/DTS-2-a\<newline>  origin/dts-2-b\<newline>  origin/main\<newline>''"

section \<open>ai\_utils: the generated document\<close>

record Section =
  title :: string
  content :: string

text \<open>
  \<open>MarkdownDocument\<close>; its fields \<open>title\<close> and \<open>content\<close> are \<open>doc_title\<close> and
  \<open>doc_content\<close> here, since a section has fields of the same names.
\<close>

record MarkdownDocument =
  doc_title :: string
  sections :: "Section list"
  doc_content :: string

text \<open>
  The statement \<open>if current_section: sections.append(Section(...))\<close>, which the
  source writes three times. \<open>current_section\<close> is \<open>None\<close> before the first heading;
  \<open>None\<close> and the empty string are both false in Python.
\<close>

definition save_section :: "Section list \<Rightarrow> string option \<Rightarrow> string list \<Rightarrow> Section list" where
  "save_section secs current_section current_content =
     (case current_section of
        None \<Rightarrow> secs
      | Some t \<Rightarrow>
          (if t \<noteq> [] then secs @ [\<lparr>title = t, content = join_nl current_content\<rparr>]
           else secs))"

text \<open>
  The loop over the lines of the text; the state is the sections saved so far, the
  title of the section being read and the lines of its content.
\<close>

fun parse_lines ::
  "string list \<Rightarrow> Section list \<Rightarrow> string option \<Rightarrow> string list
     \<Rightarrow> Section list \<times> string option \<times> string list" where
  "parse_lines [] secs current_section current_content =
     (secs, current_section, current_content)"
| "parse_lines (line # lines) secs current_section current_content =
     (if startswith ''# '' line then
        parse_lines lines (save_section secs current_section current_content)
          (Some (strip (drop 2 line))) []
      else if startswith ''## '' line then
        parse_lines lines (save_section secs current_section current_content)
          (Some (strip (drop 3 line))) []
      else
        parse_lines lines secs current_section (current_content @ [line]))"

text \<open>
  The title of the default section: the source's literal of four characters, U+4EFB
  U+52A1 U+8BE6 U+60C5 (``task details''), as UTF-8 bytes.
\<close>

definition default_section_title :: string where
  "default_section_title =
     [CHR 0xE4, CHR 0xBB, CHR 0xBB, CHR 0xE5, CHR 0x8A, CHR 0xA1, CHR 0xE8,
      CHR 0xAF, CHR 0xA6, CHR 0xE6, CHR 0x83, CHR 0x85]"

text \<open>
  The second half of \<open>generate_task_document\<close>: the document built from the text that
  the model returned.
\<close>

definition markdown_document :: "string \<Rightarrow> string \<Rightarrow> string \<Rightarrow> MarkdownDocument" where
  "markdown_document issue_key summary markdown_content =
     (let lines = split_nl markdown_content;
          (secs, current_section, current_content) = parse_lines lines [] None [];
          secs = save_section secs current_section current_content;
          secs = (if secs = [] then
                    [\<lparr>title = default_section_title, content = markdown_content\<rparr>]
                  else secs);
          t = (case secs of
                 first # rest \<Rightarrow> title first
               | [] \<Rightarrow> issue_key @ '' - '' @ summary)
      in \<lparr>doc_title = t, sections = secs, doc_content = markdown_content\<rparr>)"

text \<open>
  The generative backend is outside the program: \<open>llm\<close> maps the variables of the
  prompt to the text returned, or to \<open>None\<close> when the call raises. Within one run of
  the feedback loop every call has another \<open>chat_history\<close>, so a function of the
  input also covers a backend that answers differently each time.
\<close>

record prompt_input =
  in_issue_key :: string
  in_summary :: string
  in_description :: string
  in_status :: string
  in_assignee :: string
  in_parent_info :: string
  in_chat_history :: "(string \<times> string) list"

definition generate_task_document ::
  "(prompt_input \<Rightarrow> string option) \<Rightarrow> string \<Rightarrow> string \<Rightarrow> string \<Rightarrow> string \<Rightarrow> string
     \<Rightarrow> string \<Rightarrow> (string \<times> string) list \<Rightarrow> workflow_error + MarkdownDocument" where
  "generate_task_document llm issue_key summary description status assignee parent_info
       chat_history =
     (case llm \<lparr>in_issue_key = issue_key, in_summary = summary,
                in_description = description, in_status = status,
                in_assignee = assignee, in_parent_info = parent_info,
                in_chat_history = chat_history\<rparr> of
        None \<Rightarrow> Inl GenerationError
      | Some markdown_content \<Rightarrow> Inr (markdown_document issue_key summary markdown_content))"

section \<open>Files\<close>

text \<open>
  The file store maps a path to the bytes of the file. \<open>open(path, "w",
  encoding="utf-8")\<close> followed by \<open>f.write(s)\<close> replaces the bytes at \<open>path\<close> by the
  UTF-8 encoding of \<open>s\<close>, which is \<open>s\<close> itself in this representation (on a POSIX
  host: text mode does not translate line feeds there). Whether the operating system
  lets the file be created and written is decided outside the program: \<open>write_ok\<close>.
\<close>

type_synonym filesystem = "string \<rightharpoonup> string"

definition write_text ::
  "bool \<Rightarrow> filesystem \<Rightarrow> string \<Rightarrow> string \<Rightarrow> workflow_error + filesystem" where
  "write_text write_ok fs path s = (if write_ok then Inr (fs(path \<mapsto> s)) else Inl OSError)"

text \<open>
  Paths are \<open>pathlib\<close> paths on a POSIX host, here by their text (\<open>str(path)\<close>). The
  parts of a path are the pieces between the separators, without the empty ones and
  without \<open>.\<close>; the root is \<open>/\<close>, or \<open>//\<close> for exactly two leading separators; the
  path without root and parts is written \<open>.\<close>.
\<close>

fun split_on :: "char \<Rightarrow> string \<Rightarrow> string list" where
  "split_on sep [] = [[]]"
| "split_on sep (c # cs) =
     (if c = sep then [] # split_on sep cs
      else (case split_on sep cs of
              [] \<Rightarrow> [[c]]
            | l # ls \<Rightarrow> (c # l) # ls))"

fun join_with :: "string \<Rightarrow> string list \<Rightarrow> string" where
  "join_with sep [] = []"
| "join_with sep [x] = x"
| "join_with sep (x # y # ys) = x @ sep @ join_with sep (y # ys)"

definition path_parts :: "string \<Rightarrow> string list" where
  "path_parts s = filter (\<lambda>part. part \<noteq> [] \<and> part \<noteq> ''.'') (split_on CHR ''/'' s)"

definition path_root :: "string \<Rightarrow> string" where
  "path_root s =
     (if startswith ''//'' s \<and> \<not> startswith ''///'' s then ''//''
      else if startswith ''/'' s then ''/''
      else [])"

definition path_str :: "string \<Rightarrow> string list \<Rightarrow> string" where
  "path_str root parts =
     (if root = [] \<and> parts = [] then ''.'' else root @ join_with ''/'' parts)"

text \<open>\<open>a / b\<close>: an absolute right operand replaces the left one.\<close>

definition path_join :: "string \<Rightarrow> string \<Rightarrow> string" where
  "path_join a b =
     (if path_root b \<noteq> [] then path_str (path_root b) (path_parts b)
      else path_str (path_root a) (path_parts a @ path_parts b))"

text \<open>\<open>path.relative_to(base)\<close>, which raises \<open>ValueError\<close> for a path not under \<open>base\<close>.\<close>

definition relative_to :: "string \<Rightarrow> string \<Rightarrow> string option" where
  "relative_to path base =
     (if path_root path = path_root base
         \<and> take (length (path_parts base)) (path_parts path) = path_parts base
      then Some (path_str [] (drop (length (path_parts base)) (path_parts path)))
      else None)"

text \<open>
  \<open>save_markdown_to_file\<close>; \<open>mkdir_ok\<close> is whether \<open>os.makedirs\<close> succeeded. The
  result is the store after the call and the path returned.
\<close>

definition save_markdown_to_file ::
  "bool \<Rightarrow> bool \<Rightarrow> filesystem \<Rightarrow> string \<Rightarrow> string \<Rightarrow> workflow_error + filesystem \<times> string" where
  "save_markdown_to_file mkdir_ok write_ok fs issue_key markdown_content =
     (let tasks_dir = ''docs/.tasks'' in
      if \<not> mkdir_ok then Inl OSError
      else
        (let file_path = path_join tasks_dir (issue_key @ ''.md'') in
         case write_text write_ok fs file_path markdown_content of
           Inl e \<Rightarrow> Inl e
         | Inr fs' \<Rightarrow> Inr (fs', file_path)))"

section \<open>cli: the feedback loop of \<open>run\<close>\<close>







text \<open>
  The write of the accepted document in \<open>run\<close>: to \<open>docs/.tasks/{issue_key}.md\<close>
  under the working copy \<open>temp_dir\<close>. The result is the store after the write and
  \<open>doc_file_path\<close>.
\<close>

definition run_save_document ::
  "bool \<Rightarrow> filesystem \<Rightarrow> string \<Rightarrow> string \<Rightarrow> MarkdownDocument
     \<Rightarrow> workflow_error + filesystem \<times> string" where
  "run_save_document write_ok fs temp_dir issue_key result =
     (let tasks_dir = path_join (path_join temp_dir ''docs'') ''.tasks'';
          doc_file_path = path_join tasks_dir (issue_key @ ''.md'')
      in case write_text write_ok fs doc_file_path (doc_content result) of
           Inl e \<Rightarrow> Inl e
         | Inr fs' \<Rightarrow> Inr (fs', doc_file_path))"

section \<open>cli: commit and push in \<open>run\<close>\<close>

text \<open>
  The commit message \<open>f"docs: ...{issue_key}..."\<close>: between \<open>docs: \<close> and the issue
  key the source has the two characters U+6DFB U+52A0 (``add''), and after the key the
  four characters U+4EFB U+52A1 U+6587 U+6863 (``task document''), here in UTF-8.
\<close>

definition commit_message :: "string \<Rightarrow> string" where
  "commit_message issue_key =
     ''docs: '' @ [CHR 0xE6, CHR 0xB7, CHR 0xBB, CHR 0xE5, CHR 0x8A, CHR 0xA0]
       @ issue_key
       @ [CHR 0xE4, CHR 0xBB, CHR 0xBB, CHR 0xE5, CHR 0x8A, CHR 0xA1, CHR 0xE6,
          CHR 0x96, CHR 0x87, CHR 0xE6, CHR 0xA1, CHR 0xA3]"

text \<open>
  The lines printed at the end: after \<open>CalledProcessError\<close>, ``commit or push
  failed: '' and the standard error of the command that failed; after the push,
  ``the document was committed and pushed to branch: '' and the branch.
\<close>

definition publish_failed :: "string \<Rightarrow> string" where
  "publish_failed stderr =
     ''[bold red]''
       @ [CHR 0xE6, CHR 0x8F, CHR 0x90, CHR 0xE4, CHR 0xBA, CHR 0xA4, CHR 0xE6,
          CHR 0x88, CHR 0x96, CHR 0xE6, CHR 0x8E, CHR 0xA8, CHR 0xE9, CHR 0x80,
          CHR 0x81, CHR 0xE5, CHR 0xA4, CHR 0xB1, CHR 0xE8, CHR 0xB4, CHR 0xA5,
          CHR 0x3A, CHR 0x20]
       @ stderr @ ''[/bold red]''"

definition publish_succeeded :: "string \<Rightarrow> string" where
  "publish_succeeded branch_used =
     ''[bold green]''
       @ [CHR 0xE6, CHR 0x96, CHR 0x87, CHR 0xE6, CHR 0xA1, CHR 0xA3, CHR 0xE5,
          CHR 0xB7, CHR 0xB2, CHR 0xE6, CHR 0x88, CHR 0x90, CHR 0xE5, CHR 0x8A,
          CHR 0x9F, CHR 0xE6, CHR 0x8F, CHR 0x90, CHR 0xE4, CHR 0xBA, CHR 0xA4,
          CHR 0xE5, CHR 0xB9, CHR 0xB6, CHR 0xE6, CHR 0x8E, CHR 0xA8, CHR 0xE9,
          CHR 0x80, CHR 0x81, CHR 0xE5, CHR 0x88, CHR 0xB0, CHR 0xE5, CHR 0x88,
          CHR 0x86, CHR 0xE6, CHR 0x94, CHR 0xAF, CHR 0x3A, CHR 0x20]
       @ branch_used @ ''[/bold green]''"

text \<open>
  Step 7 of \<open>run\<close>, once the user has agreed to commit and push (\<open>os.chdir\<close> into
  the working copy is taken to succeed). The result is the list of the commands run,
  in order, and how the step ends: with the text that \<open>rich\<close> shows for the last
  line printed, or with an exception that the \<open>try\<close> block does not catch:
  \<open>ValueError\<close> of \<open>relative_to\<close>, or \<open>MarkupError\<close> of \<open>rich\<close>, raised inside the
  handler for the failure line and after the push for the success line.
\<close>

definition run_publish ::
  "(string \<Rightarrow> string option) \<Rightarrow> (string list \<Rightarrow> cmd_result) \<Rightarrow> string \<Rightarrow> string \<Rightarrow> string
     \<Rightarrow> string \<Rightarrow> string list list \<times> (workflow_error + string)" where
  "run_publish console run_cmd temp_dir doc_file_path issue_key branch_used =
     (let print_line = (\<lambda>markup.
            case console markup of
              None \<Rightarrow> Inl MarkupError
            | Some shown \<Rightarrow> Inr shown)
      in
      case relative_to doc_file_path temp_dir of
        None \<Rightarrow> ([], Inl ValueError)
      | Some rel \<Rightarrow>
          (let add = [''git'', ''add'', rel] in
           case run_cmd add of
             CalledProcessError stderr \<Rightarrow> ([add], print_line (publish_failed stderr))
           | Completed out1 \<Rightarrow>
               (let commit = [''git'', ''commit'', ''-m'', commit_message issue_key] in
                case run_cmd commit of
                  CalledProcessError stderr \<Rightarrow>
                    ([add, commit], print_line (publish_failed stderr))
                | Completed out2 \<Rightarrow>
                    (let push = [''git'', ''push'', ''-u'', ''origin'', branch_used] in
                     case run_cmd push of
                       CalledProcessError stderr \<Rightarrow>
                         ([add, commit, push], print_line (publish_failed stderr))
                     | Completed out3 \<Rightarrow>
                         ([add, commit, push], print_line (publish_succeeded branch_used))))))"

section \<open>config\<close>

text \<open>
  The values that \<open>json.load\<close> returns (of the numbers, the integers: no operation
  of the program tells one number from another).
\<close>

datatype json =
    JNull
  | JBool bool
  | JNumber int
  | JString string
  | JArray "json list"
  | JObject "(string \<times> json) list"

text \<open>
  The configuration file as \<open>load_config\<close> finds it: not there; there but not to be
  opened; there but not text in the encoding of the locale; text but not JSON; or
  holding a JSON value.
\<close>

datatype config_file = Missing | Unreadable | Undecodable | Corrupt | Parsed json

datatype py_error = AttributeError | TypeError | UnicodeDecodeError | IOError

text \<open>
  \<open>load_config\<close> catches \<open>json.JSONDecodeError\<close> only: the exceptions of \<open>open\<close> and
  of the decoding of the bytes leave it.
\<close>

definition load_config :: "config_file \<Rightarrow> py_error + json" where
  "load_config file =
     (case file of
        Missing \<Rightarrow> Inr (JObject [])
      | Unreadable \<Rightarrow> Inl IOError
      | Undecodable \<Rightarrow> Inl UnicodeDecodeError
      | Corrupt \<Rightarrow> Inr (JObject [])
      | Parsed j \<Rightarrow> Inr j)"

text \<open>\<open>d.get(key, dflt)\<close>, a method of dictionaries only.\<close>

definition dict_get :: "json \<Rightarrow> string \<Rightarrow> json \<Rightarrow> py_error + json" where
  "dict_get d key dflt =
     (case d of
        JObject kvs \<Rightarrow> Inr (case map_of kvs key of Some v \<Rightarrow> v | None \<Rightarrow> dflt)
      | _ \<Rightarrow> Inl AttributeError)"

text \<open>
  \<open>key in c\<close> for a string \<open>key\<close>: a key of a dictionary, an element of a list, a
  substring of a string; the other values are not containers.
\<close>

definition key_in :: "string \<Rightarrow> json \<Rightarrow> py_error + bool" where
  "key_in key c =
     (case c of
        JObject kvs \<Rightarrow> Inr (map_of kvs key \<noteq> None)
      | JArray xs \<Rightarrow> Inr (List.member xs (JString key))
      | JString s \<Rightarrow> Inr (py_in key s)
      | _ \<Rightarrow> Inl TypeError)"

text \<open>\<open>all(key in c for key in keys)\<close>, which stops at the first key not found.\<close>

fun all_in :: "string list \<Rightarrow> json \<Rightarrow> py_error + bool" where
  "all_in [] c = Inr True"
| "all_in (key # keys) c =
     (case key_in key c of
        Inl e \<Rightarrow> Inl e
      | Inr found \<Rightarrow> (if found then all_in keys c else Inr False))"

definition is_initialized :: "config_file \<Rightarrow> py_error + bool" where
  "is_initialized file =
     (case load_config file of
        Inl e \<Rightarrow> Inl e
      | Inr config \<Rightarrow>
          (case dict_get config ''git'' (JObject []) of
             Inl e \<Rightarrow> Inl e
           | Inr git_config \<Rightarrow>
               (case dict_get config ''jira'' (JObject []) of
                  Inl e \<Rightarrow> Inl e
                | Inr jira_config \<Rightarrow>
                    (case all_in [''url'', ''username'', ''password''] git_config of
                       Inl e \<Rightarrow> Inl e
                     | Inr git_initialized \<Rightarrow>
                         (case all_in [''username'', ''password''] jira_config of
                            Inl e \<Rightarrow> Inl e
                          | Inr jira_initialized \<Rightarrow>
                              Inr (git_initialized \<and> jira_initialized))))))"

section \<open>Branch search\<close>






text \<open>
  Claim C10. When the listing command fails, the handler prints the standard error
  through \<open>rich\<close> before it returns the empty list. Where \<open>rich\<close> shows the line, the
  search returns the empty list and \<open>run\<close> goes on as for a search without a match:
  with no parent issue it offers a new branch from \<open>release\<close>, with a parent issue it
  decides by the search for the parent's key. Where \<open>rich\<close> raises \<open>MarkupError\<close>,
  as it does for a standard error with a closing tag such as \<open>[/x]\<close>, the search
  raises it and \<open>run\<close> ends there, where the claim says that nothing is raised.
\<close>

theorem listing_failure_returns_or_raises:
  "(console (find_failed stderr) = None \<longrightarrow>
      find_branch_for_issue console lower (CalledProcessError stderr) key = Inl MarkupError
      \<and> resolve console lower (CalledProcessError stderr) listing2 key parent_key =
          Inl MarkupError)
   \<and> (console (find_failed stderr) = Some shown \<longrightarrow>
      find_branch_for_issue console lower (CalledProcessError stderr) key = Inr []
      \<and> resolve console lower (CalledProcessError stderr) listing2 key None =
          Inr (CreateNew ''release'')
      \<and> resolve console lower (CalledProcessError stderr) listing2 key (Some pk) =
          (case find_branch_for_issue console lower listing2 pk of
             Inl e \<Rightarrow> Inl e
           | Inr branches \<Rightarrow> Inr (run_branch_decision branches)))"
  by (simp add: find_branch_for_issue_def resolve_def run_find_branches_def
        run_branch_decision_def)

theorem listing_failure_returns_or_raises_witness:
  "(\<forall>console.
      find_branch_for_issue
        (console(find_failed ''fatal: not a git repository [/x]'' := None)) ascii_lower
        (CalledProcessError ''fatal: not a git repository [/x]'') ''DTS-1'' =
        Inl MarkupError)
   \<and> (\<forall>console.
      find_branch_for_issue
        (console(find_failed ''fatal: not a git repository'' \<mapsto> ''shown''))
        ascii_lower (CalledProcessError ''fatal: not a git repository'') ''DTS-1'' =
        Inr [])"
proof (intro conjI allI)
  fix console :: "string \<Rightarrow> string option"
  show "find_branch_for_issue
        (console(find_failed ''fatal: not a git repository [/x]'' := None)) ascii_lower
        (CalledProcessError ''fatal: not a git repository [/x]'') ''DTS-1'' =
        Inl MarkupError"
    using listing_failure_returns_or_raises
      [of "console(find_failed ''fatal: not a git repository [/x]'' := None)"
        "''fatal: not a git repository [/x]''" ascii_lower "''DTS-1''"]
    by simp
next
  fix console :: "string \<Rightarrow> string option"
  show "find_branch_for_issue
        (console(find_failed ''fatal: not a git repository'' \<mapsto> ''shown''))
        ascii_lower (CalledProcessError ''fatal: not a git repository'') ''DTS-1'' =
        Inr []"
    using listing_failure_returns_or_raises
      [of "console(find_failed ''fatal: not a git repository'' \<mapsto> ''shown'')"
        "''fatal: not a git repository''" ascii_lower "''DTS-1''" _ _ _ "''shown''"]
    by simp
qed

section \<open>Branch resolution\<close>

text \<open>
  Claim C1. One match for the issue key: checkout of that branch. Several matches: a
  choice among them, and a number outside \<open>1..n\<close> is an error that leaves no branch
  in use. No match: with a parent key the search is made once more with that key, and
  one, several or no match there give checkout, choice, or a new branch from
  \<open>release\<close>; without a parent key, a new branch from \<open>release\<close>. No third search
  is made.
\<close>

theorem branch_resolution:
  "(find_branch_for_issue console lower listing1 issue_key = Inr [b] \<longrightarrow>
      resolve console lower listing1 listing2 issue_key parent_key = Inr (Checkout b))
   \<and> (find_branch_for_issue console lower listing1 issue_key = Inr found
       \<and> 1 < length found \<longrightarrow>
      resolve console lower listing1 listing2 issue_key parent_key =
        Inr (ChooseAmong found))
   \<and> (branch_idx < 1 \<or> int (length bs) < branch_idx \<longrightarrow>
      run_apply_decision console run_cmd issue_key confirm branch_idx (ChooseAmong bs) =
        Inl InvalidBranchNumber)
   \<and> (find_branch_for_issue console lower listing1 issue_key = Inr [] \<longrightarrow>
      resolve console lower listing1 listing2 issue_key None = Inr (CreateNew ''release'')
      \<and> resolve console lower listing1 listing2 issue_key (Some pk) =
          (case find_branch_for_issue console lower listing2 pk of
             Inl e \<Rightarrow> Inl e
           | Inr [] \<Rightarrow> Inr (CreateNew ''release'')
           | Inr [c] \<Rightarrow> Inr (Checkout c)
           | Inr (c # d # cs) \<Rightarrow> Inr (ChooseAmong (c # d # cs))))"
  by (auto simp: resolve_def run_find_branches_def run_branch_decision_def
        run_apply_decision_def Let_def split: list.splits sum.splits)

lemma example_one:
  "find_branch_for_issue no_console ascii_lower example_listing ''dts-1'' =
     Inr [''origin/DTS-1-fix'']"
  by code_simp

lemma example_two:
  "find_branch_for_issue no_console ascii_lower example_listing ''DTS-2'' =
     Inr [''origin/DTS-2-a'', ''origin/dts-2-b'']"
  by code_simp

lemma example_none:
  "find_branch_for_issue no_console ascii_lower example_listing ''DTS-3'' = Inr []"
  by code_simp

theorem branch_resolution_witness:
  "resolve no_console ascii_lower example_listing example_listing ''dts-1'' None =
     Inr (Checkout ''origin/DTS-1-fix'')
   \<and> resolve no_console ascii_lower example_listing example_listing ''DTS-2'' None =
       Inr (ChooseAmong [''origin/DTS-2-a'', ''origin/dts-2-b''])
   \<and> run_apply_decision no_console (\<lambda>argv. Completed []) ''DTS-2'' True 3
        (ChooseAmong [''origin/DTS-2-a'', ''origin/dts-2-b'']) = Inl InvalidBranchNumber
   \<and> resolve no_console ascii_lower example_listing example_listing ''DTS-3'' None =
       Inr (CreateNew ''release'')
   \<and> resolve no_console ascii_lower example_listing example_listing ''DTS-3''
        (Some ''DTS-2'') =
       Inr (ChooseAmong [''origin/DTS-2-a'', ''origin/dts-2-b''])"
  using
    branch_resolution [of no_console ascii_lower example_listing "''dts-1''"
      "''origin/DTS-1-fix''" example_listing None "[]" 3
      "[''origin/DTS-2-a'', ''origin/dts-2-b'']" "\<lambda>argv. Completed []" True "''DTS-2''"]
    branch_resolution [of no_console ascii_lower example_listing "''DTS-2''"
      "''origin/DTS-2-a''" example_listing None
      "[''origin/DTS-2-a'', ''origin/dts-2-b'']" 3
      "[''origin/DTS-2-a'', ''origin/dts-2-b'']" "\<lambda>argv. Completed []" True "''DTS-2''"]
    branch_resolution [of no_console ascii_lower example_listing "''DTS-3''"
      "''origin/DTS-2-a''" example_listing None "[]" 3
      "[''origin/DTS-2-a'', ''origin/dts-2-b'']" "\<lambda>argv. Completed []" True "''DTS-2''"]
  by (simp add: example_one example_two example_none)

section \<open>Sections of the generated document\<close>

lemma parse_lines_no_heading:
  "\<forall>line \<in> set lines. \<not> startswith ''# '' line \<and> \<not> startswith ''## '' line \<Longrightarrow>
   parse_lines lines secs current_section current_content =
     (secs, current_section, current_content @ lines)"
  by (induction lines arbitrary: current_content) auto

lemma doc_title_first:
  "sections (markdown_document issue_key summary md) \<noteq> []
   \<and> doc_title (markdown_document issue_key summary md) =
       title (hd (sections (markdown_document issue_key summary md)))"
  by (simp add: markdown_document_def Let_def split: prod.splits list.splits)

text \<open>
  Claim C3, as the specification states it, fails: for its example text the parser
  does not produce the two sections \<open>A\<close> with content \<open>foo\<newline>\<close> and \<open>B\<close> with
  content \<open>bar\<newline>\<close>.
\<close>

theorem section_splitting_two_sections_counterexample:
  "sections (markdown_document ''DTS-1'' ''fix''
      ''# Title\<newline>## A\<newline>foo\<newline>## B\<newline>bar\<newline>'') \<noteq>
     [\<lparr>title = ''A'', content = ''foo\<newline>''\<rparr>,
      \<lparr>title = ''B'', content = ''bar\<newline>''\<rparr>]"
  by code_simp

text \<open>
  Claim C3, amended. For the example text the parser produces three sections: the
  top-level heading is a section of its own, \<open>Title\<close>, closed by the next heading and
  therefore with empty content; then \<open>A\<close> with content \<open>foo\<close> (the line feed before
  the next heading is a separator, not content) and \<open>B\<close> with content \<open>bar\<newline>\<close>.
  The document's title is \<open>Title\<close>. For every text, the document has a first section
  and its title is the document's title.
\<close>

theorem section_splitting_example:
  "markdown_document issue_key summary
     ''# Title\<newline>## A\<newline>foo\<newline>## B\<newline>bar\<newline>'' =
   \<lparr>doc_title = ''Title'',
    sections = [\<lparr>title = ''Title'', content = ''''\<rparr>,
                \<lparr>title = ''A'', content = ''foo''\<rparr>,
                \<lparr>title = ''B'', content = ''bar\<newline>''\<rparr>],
    doc_content = ''# Title\<newline>## A\<newline>foo\<newline>## B\<newline>bar\<newline>''\<rparr>
   \<and> sections (markdown_document issue_key summary md) \<noteq> []
   \<and> doc_title (markdown_document issue_key summary md) =
       title (hd (sections (markdown_document issue_key summary md)))"
proof -
  have "markdown_document issue_key summary
     ''# Title\<newline>## A\<newline>foo\<newline>## B\<newline>bar\<newline>'' =
   \<lparr>doc_title = ''Title'',
    sections = [\<lparr>title = ''Title'', content = ''''\<rparr>,
                \<lparr>title = ''A'', content = ''foo''\<rparr>,
                \<lparr>title = ''B'', content = ''bar\<newline>''\<rparr>],
    doc_content = ''# Title\<newline>## A\<newline>foo\<newline>## B\<newline>bar\<newline>''\<rparr>"
    by code_simp
  with doc_title_first show ?thesis by blast
qed

text \<open>
  Claim C7, as the specification states it, fails: the one section of a text without
  headings is not titled \<open>Task Details\<close>.
\<close>

theorem no_heading_task_details_counterexample:
  "sections (markdown_document ''DTS-1'' ''fix'' ''hello\<newline>world'') \<noteq>
     [\<lparr>title = ''Task Details'', content = ''hello\<newline>world''\<rparr>]"
  by code_simp

text \<open>
  Claim C7, amended. For every text none of whose lines starts with \<open># \<close> or
  \<open>## \<close>, the document has exactly one section; its title is the source's literal
  \<open>default_section_title\<close> (four Chinese characters, not the English words), its
  content is the whole text.
\<close>

theorem no_heading_default_section:
  assumes "\<forall>line \<in> set (split_nl markdown_content).
             \<not> startswith ''# '' line \<and> \<not> startswith ''## '' line"
  shows "markdown_document issue_key summary markdown_content =
           \<lparr>doc_title = default_section_title,
            sections = [\<lparr>title = default_section_title, content = markdown_content\<rparr>],
            doc_content = markdown_content\<rparr>"
  using assms
  by (simp add: markdown_document_def parse_lines_no_heading save_section_def)

lemma example_lines: "split_nl ''hello\<newline>world'' = [''hello'', ''world'']"
  by code_simp

theorem no_heading_default_section_witness:
  "sections (markdown_document ''DTS-1'' ''fix'' ''hello\<newline>world'') =
     [\<lparr>title = [CHR 0xE4, CHR 0xBB, CHR 0xBB, CHR 0xE5, CHR 0x8A, CHR 0xA1,
                CHR 0xE8, CHR 0xAF, CHR 0xA6, CHR 0xE6, CHR 0x83, CHR 0x85],
       content = ''hello\<newline>world''\<rparr>]"
  using no_heading_default_section [of "''hello\<newline>world''" "''DTS-1''" "''fix''"]
  by (simp add: example_lines startswith_def default_section_title_def)

section \<open>The feedback loop\<close>
















section \<open>Commit and push\<close>

lemma example_relative:
  "relative_to ''/tmp/auto-md-x/docs/.tasks/DTS-1.md'' ''/tmp/auto-md-x'' =
     Some ''docs/.tasks/DTS-1.md''"
  by code_simp

text \<open>
  Claim C4. In every execution of the publish step, the commands run stop at the first
  that fails: after a failed stage only the stage has been run; after a successful
  stage and a failed commit, the stage and the commit, so the push is never attempted
  and no command undoes the stage; after a failed push, the three commands and
  nothing after them. The handler then prints the standard error of the failed
  command through \<open>rich\<close>: the step ends with the text that \<open>rich\<close> shows for that
  line, or, where \<open>rich\<close> raises \<open>MarkupError\<close>, with that exception, and then the
  diagnostic is not surfaced, against the claim.
\<close>

theorem publish_stops_at_failure:
  assumes "relative_to doc_file_path temp_dir = Some rel"
  shows
  "(run_cmd [''git'', ''add'', rel] = CalledProcessError stderr \<longrightarrow>
      run_publish console run_cmd temp_dir doc_file_path issue_key branch_used =
        ([[''git'', ''add'', rel]],
         case console (publish_failed stderr) of
           None \<Rightarrow> Inl MarkupError
         | Some shown \<Rightarrow> Inr shown))
   \<and> (run_cmd [''git'', ''add'', rel] = Completed out1
       \<and> run_cmd [''git'', ''commit'', ''-m'', commit_message issue_key] =
           CalledProcessError stderr \<longrightarrow>
      run_publish console run_cmd temp_dir doc_file_path issue_key branch_used =
        ([[''git'', ''add'', rel],
          [''git'', ''commit'', ''-m'', commit_message issue_key]],
         case console (publish_failed stderr) of
           None \<Rightarrow> Inl MarkupError
         | Some shown \<Rightarrow> Inr shown)
      \<and> [''git'', ''push'', ''-u'', ''origin'', branch_used] \<notin>
          set (fst (run_publish console run_cmd temp_dir doc_file_path issue_key
                      branch_used)))
   \<and> (run_cmd [''git'', ''add'', rel] = Completed out1
       \<and> run_cmd [''git'', ''commit'', ''-m'', commit_message issue_key] = Completed out2
       \<and> run_cmd [''git'', ''push'', ''-u'', ''origin'', branch_used] =
           CalledProcessError stderr \<longrightarrow>
      run_publish console run_cmd temp_dir doc_file_path issue_key branch_used =
        ([[''git'', ''add'', rel],
          [''git'', ''commit'', ''-m'', commit_message issue_key],
          [''git'', ''push'', ''-u'', ''origin'', branch_used]],
         case console (publish_failed stderr) of
           None \<Rightarrow> Inl MarkupError
         | Some shown \<Rightarrow> Inr shown))"
  using assms by (simp add: run_publish_def Let_def)

text \<open>
  The failing input: the commit fails with the standard error
  \<open>error: unable to write [/tmp] file\<close>. \<open>rich\<close> reads \<open>[/tmp]\<close> as a closing tag
  that matches no open tag and raises \<open>MarkupError\<close>. For every console that does so,
  the step has run the stage and the commit and ends with that exception.
\<close>

theorem publish_stops_at_failure_witness:
  "\<forall>console.
     run_publish
       (console(publish_failed ''error: unable to write [/tmp] file'' := None))
       (\<lambda>argv. if take 2 argv = [''git'', ''commit'']
                then CalledProcessError ''error: unable to write [/tmp] file''
                else Completed [])
       ''/tmp/auto-md-x'' ''/tmp/auto-md-x/docs/.tasks/DTS-1.md'' ''DTS-1'' ''DTS-1'' =
     ([[''git'', ''add'', ''docs/.tasks/DTS-1.md''],
       [''git'', ''commit'', ''-m'', commit_message ''DTS-1'']],
      Inl MarkupError)"
proof
  fix console :: "string \<Rightarrow> string option"
  show "run_publish
       (console(publish_failed ''error: unable to write [/tmp] file'' := None))
       (\<lambda>argv. if take 2 argv = [''git'', ''commit'']
                then CalledProcessError ''error: unable to write [/tmp] file''
                else Completed [])
       ''/tmp/auto-md-x'' ''/tmp/auto-md-x/docs/.tasks/DTS-1.md'' ''DTS-1'' ''DTS-1'' =
     ([[''git'', ''add'', ''docs/.tasks/DTS-1.md''],
       [''git'', ''commit'', ''-m'', commit_message ''DTS-1'']],
      Inl MarkupError)"
    using publish_stops_at_failure [OF example_relative,
        of "\<lambda>argv. if take 2 argv = [''git'', ''commit'']
                then CalledProcessError ''error: unable to write [/tmp] file''
                else Completed []"
        "''error: unable to write [/tmp] file''"
        "console(publish_failed ''error: unable to write [/tmp] file'' := None)"
        "''DTS-1''" "''DTS-1''" "[]" "[]"]
    by simp
qed

text \<open>
  Claim C8, as the specification states it, fails: the commit message for the issue
  \<open>DTS-1\<close> is not \<open>docs: add DTS-1 task document\<close>.
\<close>

theorem commit_message_english_counterexample:
  "commit_message ''DTS-1'' \<noteq> ''docs: add DTS-1 task document''"
  by code_simp

text \<open>
  Claim C8, amended. For every issue key, the commit command of the publish step is
  \<open>git commit -m\<close> with the message made of \<open>docs: \<close>, the two Chinese characters
  U+6DFB U+52A0, the issue key, and the four Chinese characters U+4EFB U+52A1 U+6587
  U+6863.
\<close>

theorem commit_message_template:
  assumes "relative_to doc_file_path temp_dir = Some rel"
    and "run_cmd [''git'', ''add'', rel] = Completed out1"
  shows "fst (run_publish console run_cmd temp_dir doc_file_path issue_key branch_used) ! 1 =
           [''git'', ''commit'', ''-m'',
            ''docs: '' @ [CHR 0xE6, CHR 0xB7, CHR 0xBB, CHR 0xE5, CHR 0x8A, CHR 0xA0]
              @ issue_key
              @ [CHR 0xE4, CHR 0xBB, CHR 0xBB, CHR 0xE5, CHR 0x8A, CHR 0xA1,
                 CHR 0xE6, CHR 0x96, CHR 0x87, CHR 0xE6, CHR 0xA1, CHR 0xA3]]"
  using assms
  by (simp add: run_publish_def Let_def commit_message_def split: cmd_result.splits)

theorem commit_message_template_witness:
  "\<forall>console.
     fst (run_publish console (\<lambda>argv. Completed []) ''/tmp/auto-md-x''
            ''/tmp/auto-md-x/docs/.tasks/DTS-1.md'' ''DTS-1'' ''DTS-1'') ! 1 =
       [''git'', ''commit'', ''-m'',
        ''docs: '' @ [CHR 0xE6, CHR 0xB7, CHR 0xBB, CHR 0xE5, CHR 0x8A, CHR 0xA0]
          @ ''DTS-1''
          @ [CHR 0xE4, CHR 0xBB, CHR 0xBB, CHR 0xE5, CHR 0x8A, CHR 0xA1,
             CHR 0xE6, CHR 0x96, CHR 0x87, CHR 0xE6, CHR 0xA1, CHR 0xA3]]"
proof
  fix console :: "string \<Rightarrow> string option"
  show "fst (run_publish console (\<lambda>argv. Completed []) ''/tmp/auto-md-x''
            ''/tmp/auto-md-x/docs/.tasks/DTS-1.md'' ''DTS-1'' ''DTS-1'') ! 1 =
       [''git'', ''commit'', ''-m'',
        ''docs: '' @ [CHR 0xE6, CHR 0xB7, CHR 0xBB, CHR 0xE5, CHR 0x8A, CHR 0xA0]
          @ ''DTS-1''
          @ [CHR 0xE4, CHR 0xBB, CHR 0xBB, CHR 0xE5, CHR 0x8A, CHR 0xA1,
             CHR 0xE6, CHR 0x96, CHR 0x87, CHR 0xE6, CHR 0xA1, CHR 0xA3]]"
    using commit_message_template [OF example_relative,
        of "\<lambda>argv. Completed []" "[]" console "''DTS-1''" "''DTS-1''"]
    by simp
qed

section \<open>Persisting the document\<close>

text \<open>
  Claim C9. For every text and every issue key: when \<open>save_markdown_to_file\<close>
  returns, the path it returns is \<open>docs/.tasks/{issue_key}.md\<close> and the bytes of the
  file at that path are the text; when \<open>run\<close> has written the document generated
  from the text that the backend returned, the bytes of the file at \<open>doc_file_path\<close>,
  which is \<open>docs/.tasks/{issue_key}.md\<close> under the working copy, are that text.
  Both writes return whenever the operating system lets them. Reading back is the
  look-up in the store.
\<close>

theorem persisted_document_round_trip:
  "(save_markdown_to_file mkdir_ok write_ok fs issue_key raw_markdown = Inr (fs', p) \<longrightarrow>
      p = path_join ''docs/.tasks'' (issue_key @ ''.md'')
      \<and> fs' p = Some raw_markdown)
   \<and> (\<exists>fs1 p1. save_markdown_to_file True True fs issue_key raw_markdown = Inr (fs1, p1))
   \<and> (generate_task_document llm issue_key summary description status assignee
         parent_info chat_history = Inr doc
       \<and> run_save_document write_ok fs temp_dir issue_key doc = Inr (fs'', q) \<longrightarrow>
      q = path_join (path_join (path_join temp_dir ''docs'') ''.tasks'')
            (issue_key @ ''.md'')
      \<and> fs'' q = llm \<lparr>in_issue_key = issue_key, in_summary = summary,
                      in_description = description, in_status = status,
                      in_assignee = assignee, in_parent_info = parent_info,
                      in_chat_history = chat_history\<rparr>
      \<and> fs'' q = Some (doc_content doc))
   \<and> (\<exists>fs2 p2. run_save_document True fs temp_dir issue_key doc = Inr (fs2, p2))"
  by (auto simp: save_markdown_to_file_def run_save_document_def write_text_def Let_def
        generate_task_document_def markdown_document_def
        split: if_splits option.splits prod.splits)

lemma example_paths:
  "path_join ''docs/.tasks'' ''DTS-1.md'' = ''docs/.tasks/DTS-1.md''"
  "path_join (path_join (path_join ''/tmp/auto-md-x'' ''docs'') ''.tasks'') ''DTS-1.md'' =
     ''/tmp/auto-md-x/docs/.tasks/DTS-1.md''"
  by code_simp+

theorem persisted_document_round_trip_witness:
  "(\<exists>fs' p. save_markdown_to_file True True Map.empty ''DTS-1'' ''# T\<newline>text'' =
              Inr (fs', p)
            \<and> p = ''docs/.tasks/DTS-1.md'' \<and> fs' p = Some ''# T\<newline>text'')
   \<and> (\<exists>doc fs'' q.
         generate_task_document (\<lambda>inp. Some ''# T\<newline>text'') ''DTS-1'' ''fix'' ''d''
           ''Open'' ''a'' [] [] = Inr doc
       \<and> run_save_document True Map.empty ''/tmp/auto-md-x'' ''DTS-1'' doc = Inr (fs'', q)
       \<and> q = ''/tmp/auto-md-x/docs/.tasks/DTS-1.md'' \<and> fs'' q = Some ''# T\<newline>text'')"
proof -
  let ?fs1 = "Map.empty(''docs/.tasks/DTS-1.md'' \<mapsto> ''# T\<newline>text'')"
  let ?doc = "markdown_document ''DTS-1'' ''fix'' ''# T\<newline>text''"
  let ?fs2 = "Map.empty(''/tmp/auto-md-x/docs/.tasks/DTS-1.md'' \<mapsto> ''# T\<newline>text'')"
  have s1: "save_markdown_to_file True True Map.empty ''DTS-1'' ''# T\<newline>text'' =
      Inr (?fs1, ''docs/.tasks/DTS-1.md'')"
    using example_paths(1)
    by (simp add: save_markdown_to_file_def write_text_def Let_def)
  have g: "generate_task_document (\<lambda>inp. Some ''# T\<newline>text'') ''DTS-1'' ''fix'' ''d''
           ''Open'' ''a'' [] [] = Inr ?doc"
    by (simp add: generate_task_document_def)
  have c: "doc_content ?doc = ''# T\<newline>text''"
    by (simp add: markdown_document_def Let_def split: prod.splits)
  have s2: "run_save_document True Map.empty ''/tmp/auto-md-x'' ''DTS-1'' ?doc =
      Inr (?fs2, ''/tmp/auto-md-x/docs/.tasks/DTS-1.md'')"
    using example_paths(2)
    by (simp add: run_save_document_def write_text_def c Let_def)
  from persisted_document_round_trip [of True True Map.empty "''DTS-1''" "''# T\<newline>text''"
      ?fs1 "''docs/.tasks/DTS-1.md''" "\<lambda>inp. Some ''# T\<newline>text''" "''fix''" "''d''"
      "''Open''" "''a''" "[]" "[]" ?doc "''/tmp/auto-md-x''" ?fs2
      "''/tmp/auto-md-x/docs/.tasks/DTS-1.md''"] s1 g s2
  have "?fs1 ''docs/.tasks/DTS-1.md'' = Some ''# T\<newline>text''"
    and "?fs2 ''/tmp/auto-md-x/docs/.tasks/DTS-1.md'' = Some ''# T\<newline>text''"
    by simp_all
  with s1 g s2 show ?thesis by blast
qed

section \<open>The initialization check\<close>

text \<open>
  Claim C5. The check tests that the five keys are there, not that their values are
  non-empty: for a configuration with all five keys and an empty \<open>url\<close> it answers
  \<open>True\<close>, where the claim asks for \<open>False\<close>.
\<close>

theorem is_initialized_accepts_empty_field:
  "is_initialized
     (Parsed (JObject
        [(''git'', JObject [(''url'', JString ''''), (''username'', JString ''u''),
                            (''password'', JString ''p'')]),
         (''jira'', JObject [(''username'', JString ''u''),
                             (''password'', JString ''p'')])])) = Inr True"
  by code_simp

end
